theory Spec2Isabelle
  imports Complex_Main "HOL-Library.Sublist" "HOL-Library.Multiset"
begin

section \<open>JavaScript values used by the product actions\<close>

text \<open>
  The actions of \<^verbatim>\<open>src/lib/actions/productActions.ts\<close> read a \<^verbatim>\<open>FormData\<close>, coerce
  some of its entries with \<^verbatim>\<open>Number(...)\<close>, and hand the result to the validation module
  and to the Mongoose model of \<^verbatim>\<open>src/models/Product.ts\<close>.

  A JavaScript number is modelled as an exact rational or one of the three non-finite
  values; rounding to a double and the sign of zero are not modelled. Strings are lists
  of 8-bit characters.
\<close>

datatype js_number = Finite rat | NaN | PosInfinity | NegInfinity

text \<open>A form entry is a string or an uploaded file (of which only the file name is kept).\<close>

datatype FormDataEntryValue = EString string | EFile string

text \<open>A \<^verbatim>\<open>FormData\<close> is the list of its entries, in the order they were appended.\<close>

type_synonym FormData = "(string \<times> FormDataEntryValue) list"

text \<open>\<^verbatim>\<open>formData.get(k)\<close>: the first entry named \<open>k\<close>, or \<^verbatim>\<open>null\<close> (\<open>None\<close>).\<close>

definition fd_get :: "FormData \<Rightarrow> string \<Rightarrow> FormDataEntryValue option" where
  "fd_get formData k = map_of formData k"

text \<open>\<^verbatim>\<open>formData.getAll(k)\<close>: every entry named \<open>k\<close>, in order.\<close>

definition fd_getAll :: "FormData \<Rightarrow> string \<Rightarrow> FormDataEntryValue list" where
  "fd_getAll formData k = map snd (filter (\<lambda>e. fst e = k) formData)"

text \<open>\<^verbatim>\<open>formData.has(k)\<close>.\<close>

definition fd_has :: "FormData \<Rightarrow> string \<Rightarrow> bool" where
  "fd_has formData k = (k \<in> set (map fst formData))"

subsection \<open>String helpers: white space, trimming, lower case\<close>

definition isWhiteSpace :: "char \<Rightarrow> bool" where
  "isWhiteSpace c = (c \<in> set [CHR '' '', CHR 0x09, CHR 0x0A, CHR 0x0B, CHR 0x0C, CHR 0x0D])"

text \<open>\<^verbatim>\<open>String.prototype.trim\<close>.\<close>

definition trim :: "string \<Rightarrow> string" where
  "trim s = rev (dropWhile isWhiteSpace (rev (dropWhile isWhiteSpace s)))"

text \<open>Case folding of the letters A to Z; every other character is left as it is.\<close>

definition toLowerChar :: "char \<Rightarrow> char" where
  "toLowerChar c =
     (case map_of (zip ''ABCDEFGHIJKLMNOPQRSTUVWXYZ'' ''abcdefghijklmnopqrstuvwxyz'') c of
        Some l \<Rightarrow> l
      | None \<Rightarrow> c)"


subsection \<open>\<^verbatim>\<open>Number(...)\<close>\<close>

text \<open>
  \<^verbatim>\<open>Number(v)\<close> for \<open>v\<close> a form entry or \<^verbatim>\<open>null\<close> follows ECMAScript's ToNumber:
  \<^verbatim>\<open>null\<close> becomes \<open>0\<close>, an object (a file) becomes \<open>NaN\<close>, and a string is read by
  StringToNumber: white space is trimmed, the empty string is \<open>0\<close>, and what remains must
  be a numeric literal (signed decimal with optional fraction and exponent,
  \<^verbatim>\<open>Infinity\<close>, or an unsigned \<^verbatim>\<open>0x\<close>/\<^verbatim>\<open>0o\<close>/\<^verbatim>\<open>0b\<close> integer), else the result is \<open>NaN\<close>.
\<close>

definition digitValue :: "char \<Rightarrow> nat option" where
  "digitValue c =
     map_of [(CHR ''0'', 0), (CHR ''1'', 1), (CHR ''2'', 2), (CHR ''3'', 3), (CHR ''4'', 4),
             (CHR ''5'', 5), (CHR ''6'', 6), (CHR ''7'', 7), (CHR ''8'', 8), (CHR ''9'', 9),
             (CHR ''a'', 10), (CHR ''b'', 11), (CHR ''c'', 12), (CHR ''d'', 13), (CHR ''e'', 14),
             (CHR ''f'', 15)] (toLowerChar c)"

text \<open>The value of a possibly empty run of digits in a base; \<open>None\<close> at a non-digit.\<close>

fun digitsValue :: "nat \<Rightarrow> nat \<Rightarrow> string \<Rightarrow> nat option" where
  "digitsValue base acc [] = Some acc"
| "digitsValue base acc (c # cs) =
     (case digitValue c of
        None \<Rightarrow> None
      | Some d \<Rightarrow> if d < base then digitsValue base (acc * base + d) cs else None)"

text \<open>The exponent part: empty, or \<^verbatim>\<open>e\<close>/\<^verbatim>\<open>E\<close>, an optional sign and at least one digit.\<close>

definition exponentValue :: "string \<Rightarrow> int option" where
  "exponentValue s =
     (case s of
        [] \<Rightarrow> Some 0
      | _ # r \<Rightarrow>
          (let neg = (r \<noteq> [] \<and> hd r = CHR ''-'');
               ds = (if r \<noteq> [] \<and> (hd r = CHR ''-'' \<or> hd r = CHR ''+'') then tl r else r)
           in if ds = [] then None
              else (case digitsValue 10 0 ds of
                      None \<Rightarrow> None
                    | Some n \<Rightarrow> Some (if neg then - int n else int n))))"

definition pow10 :: "int \<Rightarrow> rat" where
  "pow10 e = (if 0 \<le> e then 10 ^ nat e else 1 / 10 ^ nat (- e))"

definition isExponentMark :: "char \<Rightarrow> bool" where
  "isExponentMark c = (c = CHR ''e'' \<or> c = CHR ''E'')"

text \<open>StrUnsignedDecimalLiteral, as a non-negative rational; \<open>None\<close> when malformed.\<close>

definition unsignedDecimal :: "string \<Rightarrow> rat option" where
  "unsignedDecimal s =
     (let mant = takeWhile (\<lambda>c. \<not> isExponentMark c) s;
          ex = dropWhile (\<lambda>c. \<not> isExponentMark c) s;
          ip = takeWhile (\<lambda>c. c \<noteq> CHR ''.'') mant;
          fp = drop 1 (dropWhile (\<lambda>c. c \<noteq> CHR ''.'') mant)
      in if ip = [] \<and> fp = [] then None
         else (case (digitsValue 10 0 ip, digitsValue 10 0 fp, exponentValue ex) of
                 (Some i, Some f, Some e) \<Rightarrow>
                   Some ((of_nat i + of_nat f / 10 ^ length fp) * pow10 e)
               | _ \<Rightarrow> None))"

definition strDecimalLiteral :: "string \<Rightarrow> js_number" where
  "strDecimalLiteral s =
     (let neg = (s \<noteq> [] \<and> hd s = CHR ''-'');
          u = (if s \<noteq> [] \<and> (hd s = CHR ''-'' \<or> hd s = CHR ''+'') then tl s else s)
      in if u = ''Infinity'' then (if neg then NegInfinity else PosInfinity)
         else (case unsignedDecimal u of
                 None \<Rightarrow> NaN
               | Some r \<Rightarrow> Finite (if neg then - r else r)))"

text \<open>NonDecimalIntegerLiteral: \<^verbatim>\<open>0x\<close>, \<^verbatim>\<open>0o\<close> or \<^verbatim>\<open>0b\<close> and at least one digit of that base.\<close>

definition nonDecimalBase :: "string \<Rightarrow> nat option" where
  "nonDecimalBase s =
     (if length s < 2 \<or> hd s \<noteq> CHR ''0'' then None
      else map_of [(CHR ''x'', 16), (CHR ''o'', 8), (CHR ''b'', 2)] (toLowerChar (hd (tl s))))"

definition StringToNumber :: "string \<Rightarrow> js_number" where
  "StringToNumber s =
     (let t = trim s
      in if t = [] then Finite 0
         else (case nonDecimalBase t of
                 Some base \<Rightarrow>
                   (if drop 2 t = [] then NaN
                    else (case digitsValue base 0 (drop 2 t) of
                            None \<Rightarrow> NaN
                          | Some n \<Rightarrow> Finite (of_nat n)))
               | None \<Rightarrow> strDecimalLiteral t))"

text \<open>\<^verbatim>\<open>Number.isInteger\<close> on a finite number.\<close>

definition Number_isInteger :: "rat \<Rightarrow> bool" where
  "Number_isInteger r = (of_int \<lfloor>r\<rfloor> = r)"

text \<open>\<^verbatim>\<open>Number(formData.get(k))\<close>: the argument is an entry or \<^verbatim>\<open>null\<close>.\<close>

definition Number_js :: "FormDataEntryValue option \<Rightarrow> js_number" where
  "Number_js v =
     (case v of
        None \<Rightarrow> Finite 0
      | Some (EFile _) \<Rightarrow> NaN
      | Some (EString s) \<Rightarrow> StringToNumber s)"

section \<open>The data model\<close>

text \<open>
  \<^verbatim>\<open>ProductInput\<close> is the validated payload that \<^verbatim>\<open>createProduct\<close> passes to
  \<^verbatim>\<open>Product.create\<close>; \<^verbatim>\<open>IProduct\<close> (\<^verbatim>\<open>src/models/Product.ts\<close>) is a stored document: the
  same fields, the identifier \<^verbatim>\<open>_id\<close> (here \<open>ident\<close>) and the two timestamps that the
  schema option \<^verbatim>\<open>timestamps: true\<close> adds.
\<close>

record ProductInput =
  name :: string
  description :: string
  price :: rat
  stock :: rat
  category :: string
  images :: "string list"
  featured :: bool

record IProduct = ProductInput +
  ident :: string
  createdAt :: int
  updatedAt :: int

text \<open>The \<^verbatim>\<open>enum\<close> values of the path \<^verbatim>\<open>category\<close> in the schema; the enumeration of the
  specification has the same eight values.\<close>

definition categoryValues :: "string list" where
  "categoryValues =
     [''Electronics'', ''Clothing'', ''Food'', ''Books'', ''Home'', ''Sports'', ''Toys'', ''Other'']"

text \<open>
  The object literal \<^verbatim>\<open>rawData\<close> of \<^verbatim>\<open>createProduct\<close>: every key is present, the text
  fields hold what \<^verbatim>\<open>formData.get\<close> returned (an entry or \<^verbatim>\<open>null\<close>).
\<close>

record RawProductData =
  raw_name :: "FormDataEntryValue option"
  raw_description :: "FormDataEntryValue option"
  raw_price :: js_number
  raw_stock :: js_number
  raw_category :: "FormDataEntryValue option"
  raw_images :: "FormDataEntryValue list"
  raw_featured :: bool

text \<open>
  The object \<^verbatim>\<open>rawData: Partial<ProductInput>\<close> of \<^verbatim>\<open>updateProduct\<close>: a key is present
  (\<open>Some\<close>) only when the action assigned it.
\<close>

record PartialRawData =
  part_name :: "FormDataEntryValue option"
  part_description :: "FormDataEntryValue option"
  part_price :: "js_number option"
  part_stock :: "js_number option"
  part_category :: "FormDataEntryValue option"
  part_featured :: "bool option"
  part_images :: "FormDataEntryValue list option"

text \<open>The validated update payload \<^verbatim>\<open>UpdateProductInput\<close>: the supplied fields only.\<close>

record UpdateProductInput =
  set_name :: "string option"
  set_description :: "string option"
  set_price :: "rat option"
  set_stock :: "rat option"
  set_category :: "string option"
  set_featured :: "bool option"
  set_images :: "string list option"

text \<open>The names of the keys present in an update payload.\<close>

definition payload_fields :: "UpdateProductInput \<Rightarrow> string set" where
  "payload_fields u =
     (if set_name u = None then {} else {''name''}) \<union>
     (if set_description u = None then {} else {''description''}) \<union>
     (if set_price u = None then {} else {''price''}) \<union>
     (if set_stock u = None then {} else {''stock''}) \<union>
     (if set_category u = None then {} else {''category''}) \<union>
     (if set_featured u = None then {} else {''featured''}) \<union>
     (if set_images u = None then {} else {''images''})"

text \<open>One entry of \<^verbatim>\<open>ActionResponse.errors\<close>.\<close>

record field_error =
  field :: string
  message :: string

text \<open>A thrown value, as far as the \<^verbatim>\<open>catch\<close> blocks look at it: \<^verbatim>\<open>error.code\<close> and
  \<^verbatim>\<open>error.message\<close> (either may be undefined).\<close>

datatype error_code = NoCode | NumCode int | StrCode string

record js_error =
  err_code :: error_code
  err_message :: "string option"

text \<open>The data a successful action returns: one product, a page of products with its
  pagination summary, or the deletion message.\<close>

record pagination =
  pg_page :: int
  pg_limit :: int
  pg_total :: nat
  pg_totalPages :: js_number

datatype response_data =
    ProductData IProduct
  | ProductsPage "IProduct list" pagination
  | MessageData string

text \<open>\<^verbatim>\<open>type ActionResponse\<close>: an optional key that is absent or undefined is \<open>None\<close>.\<close>

record ActionResponse =
  success :: bool
  data :: "response_data option"
  error :: "string option"
  errors :: "field_error list option"

section \<open>The validation module\<close>

text \<open>
  The actions import \<^verbatim>\<open>validateProduct\<close>, \<^verbatim>\<open>validateUpdateProduct\<close> and
  \<^verbatim>\<open>formatValidationErrors\<close> from \<^verbatim>\<open>@/lib/validations/Product\<close>, which is not among the
  source files. The actions below take the module as a parameter: a validator returns
  either its error (\<open>Inl\<close>, the \<^verbatim>\<open>success: false\<close> result with \<^verbatim>\<open>.error\<close>) or the validated
  data (\<open>Inr\<close>). An issue is a field path and a message.
\<close>

type_synonym validation_issue = "string \<times> string"

record validations =
  validateProduct :: "RawProductData \<Rightarrow> validation_issue list + ProductInput"
  validateUpdateProduct :: "PartialRawData \<Rightarrow> validation_issue list + UpdateProductInput"
  formatValidationErrors :: "validation_issue list \<Rightarrow> field_error list"

subsection \<open>The validators of the specification\<close>

text \<open>
  This subsection gives the module as section 4.1 of the specification and its field
  table describe it: one check per field, the two validators built from the checks, and
  the formatter. A check returns the issues of its field or the checked value.
\<close>

definition issuesOf :: "validation_issue list + 'a \<Rightarrow> validation_issue list" where
  "issuesOf r = (case r of Inl es \<Rightarrow> es | Inr _ \<Rightarrow> [])"

text \<open>Modelled from the spec: the field rule \<open>name: trimmed length in [3,100]\<close> of the
  validator, which is not among the source files. The message texts of this and of the
  following checks are not fixed by the specification.\<close>

definition check_name :: "FormDataEntryValue option \<Rightarrow> validation_issue list + string" where
  "check_name v =
     (case v of
        Some (EString s) \<Rightarrow>
          (let t = trim s
           in if 3 \<le> length t \<and> length t \<le> 100 then Inr t
              else Inl [(''name'', ''Name must be between 3 and 100 characters'')])
      | _ \<Rightarrow> Inl [(''name'', ''Name is required'')])"

text \<open>Modelled from the spec: the field rule \<open>description: trimmed length in [1,1000]\<close> of
  the validator, which is not among the source files.\<close>

definition check_description :: "FormDataEntryValue option \<Rightarrow> validation_issue list + string" where
  "check_description v =
     (case v of
        Some (EString s) \<Rightarrow>
          (let t = trim s
           in if 1 \<le> length t \<and> length t \<le> 1000 then Inr t
              else Inl [(''description'', ''Description must be between 1 and 1000 characters'')])
      | _ \<Rightarrow> Inl [(''description'', ''Description is required'')])"

text \<open>Modelled from the spec: the field rule \<open>price: numeric, >= 0\<close> (a non-negative real
  number) of the validator, which is not among the source files.\<close>

definition check_price :: "js_number \<Rightarrow> validation_issue list + rat" where
  "check_price n =
     (case n of
        Finite r \<Rightarrow> if 0 \<le> r then Inr r else Inl [(''price'', ''Price must be at least 0'')]
      | _ \<Rightarrow> Inl [(''price'', ''Price must be a number'')])"

text \<open>Modelled from the spec: the field rule \<open>stock: integer, >= 0\<close> of the validator,
  which is not among the source files.\<close>

definition check_stock :: "js_number \<Rightarrow> validation_issue list + rat" where
  "check_stock n =
     (case n of
        Finite r \<Rightarrow>
          if \<not> Number_isInteger r then Inl [(''stock'', ''Stock must be a whole number'')]
          else if 0 \<le> r then Inr r
          else Inl [(''stock'', ''Stock must be at least 0'')]
      | _ \<Rightarrow> Inl [(''stock'', ''Stock must be a number'')])"

text \<open>Modelled from the spec: the field rule \<open>category: member of fixed 8-value
  enumeration\<close> of the validator, which is not among the source files.\<close>

definition check_category :: "FormDataEntryValue option \<Rightarrow> validation_issue list + string" where
  "check_category v =
     (case v of
        Some (EString s) \<Rightarrow>
          if s \<in> set categoryValues then Inr s
          else Inl [(''category'', ''Category is not one of the allowed values'')]
      | _ \<Rightarrow> Inl [(''category'', ''Category is required'')])"

definition entryString :: "FormDataEntryValue \<Rightarrow> string option" where
  "entryString v = (case v of EString s \<Rightarrow> if s = [] then None else Some s | EFile _ \<Rightarrow> None)"

text \<open>Modelled from the spec: the field rule \<open>images: at most 5 non-empty strings\<close> of the
  validator, which is not among the source files.\<close>

definition check_images :: "FormDataEntryValue list \<Rightarrow> validation_issue list + string list" where
  "check_images vs =
     (if \<exists>v \<in> set vs. entryString v = None
      then Inl [(''images'', ''Images must be non-empty strings'')]
      else if 5 < length vs then Inl [(''images'', ''At most 5 images are allowed'')]
      else Inr (List.map_filter entryString vs))"

text \<open>Modelled from the spec: \<open>validateCreate\<close> of section 4.1, the validator that the
  source imports as \<^verbatim>\<open>validateProduct\<close> and that is not among the source files. Every
  field is checked on its own, all violations are collected in field-declaration order,
  and success yields the fully populated payload.\<close>

definition validateProduct_spec :: "RawProductData \<Rightarrow> validation_issue list + ProductInput" where
  "validateProduct_spec raw =
     (let n = check_name (raw_name raw);
          d = check_description (raw_description raw);
          p = check_price (raw_price raw);
          s = check_stock (raw_stock raw);
          c = check_category (raw_category raw);
          i = check_images (raw_images raw);
          es = issuesOf n @ issuesOf d @ issuesOf p @ issuesOf s @ issuesOf c @ issuesOf i
      in case (n, d, p, s, c, i) of
           (Inr n', Inr d', Inr p', Inr s', Inr c', Inr i') \<Rightarrow>
             Inr \<lparr> name = n', description = d', price = p', stock = s', category = c',
                   images = i', featured = raw_featured raw \<rparr>
         | _ \<Rightarrow> Inl es)"

text \<open>One optional field of an update: absent stays absent, present is checked.\<close>

definition check_opt :: "('a \<Rightarrow> validation_issue list + 'b) \<Rightarrow> 'a option
    \<Rightarrow> validation_issue list + 'b option" where
  "check_opt chk v =
     (case v of
        None \<Rightarrow> Inr None
      | Some x \<Rightarrow> (case chk x of Inl es \<Rightarrow> Inl es | Inr y \<Rightarrow> Inr (Some y)))"

text \<open>Modelled from the spec: \<open>validateUpdate\<close> of section 4.1, the validator that the
  source imports as \<^verbatim>\<open>validateUpdateProduct\<close> and that is not among the source files. Only
  supplied fields are checked, fields absent from the input are absent from the output,
  and all violations are collected.\<close>

definition validateUpdateProduct_spec ::
    "PartialRawData \<Rightarrow> validation_issue list + UpdateProductInput" where
  "validateUpdateProduct_spec raw =
     (let n = check_opt (\<lambda>v. check_name (Some v)) (part_name raw);
          d = check_opt (\<lambda>v. check_description (Some v)) (part_description raw);
          p = check_opt check_price (part_price raw);
          s = check_opt check_stock (part_stock raw);
          c = check_opt (\<lambda>v. check_category (Some v)) (part_category raw);
          i = check_opt check_images (part_images raw);
          es = issuesOf n @ issuesOf d @ issuesOf p @ issuesOf s @ issuesOf c @ issuesOf i
      in case (n, d, p, s, c, i) of
           (Inr n', Inr d', Inr p', Inr s', Inr c', Inr i') \<Rightarrow>
             Inr \<lparr> set_name = n', set_description = d', set_price = p', set_stock = s',
                   set_category = c', set_featured = part_featured raw, set_images = i' \<rparr>
         | _ \<Rightarrow> Inl es)"

text \<open>Modelled from the spec: the ordered sequence of \<open>{field, message}\<close> pairs of
  section 4.1, which the source obtains from \<^verbatim>\<open>formatValidationErrors\<close>, a function that is
  not among the source files.\<close>

definition formatValidationErrors_spec :: "validation_issue list \<Rightarrow> field_error list" where
  "formatValidationErrors_spec es = map (\<lambda>(p, m). \<lparr> field = p, message = m \<rparr>) es"

definition specValidations :: validations where
  "specValidations =
     \<lparr> validateProduct = validateProduct_spec,
       validateUpdateProduct = validateUpdateProduct_spec,
       formatValidationErrors = formatValidationErrors_spec \<rparr>"

section \<open>The Product model: schema, collection and store operations\<close>

text \<open>
  The document store is not part of the repository. It is modelled as the list of stored
  documents in insertion order, with the behaviour of the Mongoose calls the actions make
  under the schema that \<^verbatim>\<open>src/models/Product.ts\<close> declares. Identifiers are opaque
  strings: the store draws them from a counter. \<open>revalidated\<close> records the paths passed
  to \<^verbatim>\<open>revalidatePath\<close>, oldest first.
\<close>

record world =
  collection :: "IProduct list"
  nextId :: nat
  revalidated :: "string list"

text \<open>
  What an action takes from its environment: the clock, the error (if any) with which
  \<^verbatim>\<open>dbConnect()\<close> rejects, and the error (if any) with which the \<open>k\<close>-th store call of the
  action rejects for a reason of the store's own (lost connection, malformed identifier,
  ...).
\<close>

record env =
  now :: int
  connectFault :: "js_error option"
  storeFault :: "nat \<Rightarrow> js_error option"

text \<open>A store call rejects with the environment's error, if there is one, and otherwise
  does what the store does.\<close>

definition withFault :: "js_error option \<Rightarrow> js_error + 'a \<Rightarrow> js_error + 'a" where
  "withFault f r = (case f of Some err \<Rightarrow> Inl err | None \<Rightarrow> r)"

definition revalidatePath :: "string \<Rightarrow> world \<Rightarrow> world" where
  "revalidatePath path w = w\<lparr> revalidated := revalidated w @ [path] \<rparr>"

fun showNat :: "nat \<Rightarrow> string" where
  "showNat n =
     (if n < 10 then [''0123456789'' ! n]
      else showNat (n div 10) @ [''0123456789'' ! (n mod 10)])"

declare showNat.simps [simp del]

definition objectId :: "nat \<Rightarrow> string" where
  "objectId n = ''id'' @ showNat n"

subsection \<open>\<^verbatim>\<open>ProductSchema\<close>\<close>

text \<open>The setters: \<^verbatim>\<open>trim: true\<close> on \<^verbatim>\<open>name\<close>, \<^verbatim>\<open>description\<close> and \<^verbatim>\<open>category\<close>.\<close>

definition ProductSchema_setters :: "ProductInput \<Rightarrow> ProductInput" where
  "ProductSchema_setters p =
     p\<lparr> name := trim (name p), description := trim (description p),
        category := trim (category p) \<rparr>"

text \<open>The validators of each path, in the order Mongoose runs them (\<^verbatim>\<open>required\<close> first,
  then as declared); the result is the message of the first one that fails.\<close>

definition name_validators :: "string \<Rightarrow> string option" where
  "name_validators v =
     (if v = [] then Some ''Product name is required''
      else if 100 < length v then Some ''Product name cannot exceed 100 characters''
      else if length v < 3 then Some ''Product name must be at least 3 characters long''
      else None)"

definition description_validators :: "string \<Rightarrow> string option" where
  "description_validators v =
     (if v = [] then Some ''Product description is required''
      else if 1000 < length v then Some ''Description cannot exceed 1000 characters''
      else None)"

definition price_validators :: "rat \<Rightarrow> string option" where
  "price_validators v =
     (if v < 0 then Some ''Price cannot be negative''
      else if \<not> 0 \<le> v then Some ''Price must be a valid positive number''
      else None)"

definition stock_validators :: "rat \<Rightarrow> string option" where
  "stock_validators v =
     (if v < 0 then Some ''Stock cannot be negative''
      else if \<not> Number_isInteger v then Some ''Stock must be a whole number''
      else None)"

definition category_validators :: "string \<Rightarrow> string option" where
  "category_validators v =
     (if v = [] then Some ''Product category is required''
      else if v \<notin> set categoryValues then Some (v @ '' is not a valid category'')
      else None)"

definition images_validators :: "string list \<Rightarrow> string option" where
  "images_validators v =
     (if length v \<le> 5 then None else Some ''Cannot upload more than 5 images per product'')"

definition pathError :: "string \<Rightarrow> string option \<Rightarrow> (string \<times> string) list" where
  "pathError path r = (case r of None \<Rightarrow> [] | Some m \<Rightarrow> [(path, m)])"

text \<open>Document validation, as \<^verbatim>\<open>Product.create\<close> runs it: every path.\<close>

definition ProductSchema_validate :: "ProductInput \<Rightarrow> (string \<times> string) list" where
  "ProductSchema_validate p =
     pathError ''name'' (name_validators (name p)) @
     pathError ''description'' (description_validators (description p)) @
     pathError ''price'' (price_validators (price p)) @
     pathError ''stock'' (stock_validators (stock p)) @
     pathError ''category'' (category_validators (category p)) @
     pathError ''images'' (images_validators (images p))"

text \<open>Update validation (\<^verbatim>\<open>runValidators: true\<close>): the paths the update sets.\<close>

definition ProductSchema_validateUpdate :: "UpdateProductInput \<Rightarrow> (string \<times> string) list" where
  "ProductSchema_validateUpdate u =
     pathError ''name'' (Option.bind (set_name u) name_validators) @
     pathError ''description'' (Option.bind (set_description u) description_validators) @
     pathError ''price'' (Option.bind (set_price u) price_validators) @
     pathError ''stock'' (Option.bind (set_stock u) stock_validators) @
     pathError ''category'' (Option.bind (set_category u) category_validators) @
     pathError ''images'' (Option.bind (set_images u) images_validators)"

definition ProductSchema_updateSetters :: "UpdateProductInput \<Rightarrow> UpdateProductInput" where
  "ProductSchema_updateSetters u =
     u\<lparr> set_name := map_option trim (set_name u),
        set_description := map_option trim (set_description u),
        set_category := map_option trim (set_category u) \<rparr>"

fun joinErrors :: "(string \<times> string) list \<Rightarrow> string" where
  "joinErrors [] = []"
| "joinErrors [(p, m)] = p @ '': '' @ m"
| "joinErrors ((p, m) # es) = p @ '': '' @ m @ '', '' @ joinErrors es"

definition ValidationError :: "string \<Rightarrow> (string \<times> string) list \<Rightarrow> js_error" where
  "ValidationError heading es =
     \<lparr> err_code = NoCode, err_message = Some (heading @ '': '' @ joinErrors es) \<rparr>"

text \<open>
  The indexes the schema declares, each with its \<^verbatim>\<open>unique\<close> option. The four calls
  \<^verbatim>\<open>ProductSchema.index({ name: 1 })\<close>, ..., \<^verbatim>\<open>ProductSchema.index({ featured: 1 })\<close> pass
  no options, and no path of the schema sets \<^verbatim>\<open>unique\<close>: none of them is unique.
\<close>

definition ProductSchema_indexes :: "(string \<times> bool) list" where
  "ProductSchema_indexes =
     [(''name'', False), (''category'', False), (''price'', False), (''featured'', False)]"

datatype index_key = KString string | KNumber rat | KBool bool

definition indexKey :: "string \<Rightarrow> IProduct \<Rightarrow> index_key option" where
  "indexKey path d =
     (if path = ''name'' then Some (KString (name d))
      else if path = ''category'' then Some (KString (category d))
      else if path = ''price'' then Some (KNumber (price d))
      else if path = ''featured'' then Some (KBool (featured d))
      else None)"

text \<open>An insert violates a unique index when a stored document has the same key.\<close>

definition duplicateKey :: "IProduct \<Rightarrow> IProduct list \<Rightarrow> bool" where
  "duplicateKey doc docs =
     (\<exists>ix \<in> set ProductSchema_indexes.
        snd ix \<and> (\<exists>d \<in> set docs. indexKey (fst ix) d = indexKey (fst ix) doc))"

definition E11000 :: js_error where
  "E11000 = \<lparr> err_code = NumCode 11000, err_message = Some ''E11000 duplicate key error'' \<rparr>"

subsection \<open>Store operations\<close>

text \<open>\<^verbatim>\<open>Product.create(data)\<close>: setters, document validation, then the insert with a
  fresh identifier and both timestamps.\<close>

definition Product_create :: "int \<Rightarrow> ProductInput \<Rightarrow> world \<Rightarrow> js_error + IProduct \<times> world" where
  "Product_create t input w =
     (let p = ProductSchema_setters input;
          es = ProductSchema_validate p;
          doc = \<lparr> name = name p, description = description p, price = price p,
                  stock = stock p, category = category p, images = images p,
                  featured = featured p, ident = objectId (nextId w),
                  createdAt = t, updatedAt = t \<rparr>
      in if es \<noteq> [] then Inl (ValidationError ''Product validation failed'' es)
         else if duplicateKey doc (collection w) then Inl E11000
         else Inr (doc, w\<lparr> collection := collection w @ [doc], nextId := Suc (nextId w) \<rparr>))"

text \<open>\<^verbatim>\<open>Product.findById(id)\<close>: the document or \<^verbatim>\<open>null\<close>.\<close>

definition Product_findById :: "string \<Rightarrow> world \<Rightarrow> IProduct option" where
  "Product_findById i w = find (\<lambda>d. ident d = i) (collection w)"

fun updateFirst :: "('a \<Rightarrow> bool) \<Rightarrow> ('a \<Rightarrow> 'a) \<Rightarrow> 'a list \<Rightarrow> 'a list" where
  "updateFirst P f [] = []"
| "updateFirst P f (x # xs) = (if P x then f x # xs else x # updateFirst P f xs)"

definition applyUpdate :: "UpdateProductInput \<Rightarrow> int \<Rightarrow> IProduct \<Rightarrow> IProduct" where
  "applyUpdate u t d =
     d\<lparr> name := (case set_name u of Some v \<Rightarrow> v | None \<Rightarrow> name d),
        description := (case set_description u of Some v \<Rightarrow> v | None \<Rightarrow> description d),
        price := (case set_price u of Some v \<Rightarrow> v | None \<Rightarrow> price d),
        stock := (case set_stock u of Some v \<Rightarrow> v | None \<Rightarrow> stock d),
        category := (case set_category u of Some v \<Rightarrow> v | None \<Rightarrow> category d),
        featured := (case set_featured u of Some v \<Rightarrow> v | None \<Rightarrow> featured d),
        images := (case set_images u of Some v \<Rightarrow> v | None \<Rightarrow> images d),
        updatedAt := t \<rparr>"

text \<open>\<^verbatim>\<open>Product.findByIdAndUpdate(id, data, { new: true, runValidators: true })\<close>: the
  update is validated, then the matching document has the supplied paths set and is
  returned as updated; \<^verbatim>\<open>null\<close> when no document matches.\<close>

definition Product_findByIdAndUpdate ::
    "int \<Rightarrow> string \<Rightarrow> UpdateProductInput \<Rightarrow> world \<Rightarrow> js_error + IProduct option \<times> world" where
  "Product_findByIdAndUpdate t i upd w =
     (let u = ProductSchema_updateSetters upd;
          es = ProductSchema_validateUpdate u
      in if es \<noteq> [] then Inl (ValidationError ''Validation failed'' es)
         else (case Product_findById i w of
                 None \<Rightarrow> Inr (None, w)
               | Some d \<Rightarrow>
                   Inr (Some (applyUpdate u t d),
                        w\<lparr> collection :=
                             updateFirst (\<lambda>d. ident d = i) (applyUpdate u t) (collection w) \<rparr>)))"

text \<open>\<^verbatim>\<open>Product.findByIdAndDelete(id)\<close>: removes and returns the document, or \<^verbatim>\<open>null\<close>.\<close>

definition Product_findByIdAndDelete :: "string \<Rightarrow> world \<Rightarrow> IProduct option \<times> world" where
  "Product_findByIdAndDelete i w =
     (case Product_findById i w of
        None \<Rightarrow> (None, w)
      | Some d \<Rightarrow> (Some d, w\<lparr> collection := remove1 d (collection w) \<rparr>))"

definition DocumentNotFoundError :: js_error where
  "DocumentNotFoundError =
     \<lparr> err_code = NoCode, err_message = Some ''No document found for query'' \<rparr>"

text \<open>\<^verbatim>\<open>product.save()\<close> on a loaded document whose only modified path is
  \<^verbatim>\<open>featured\<close>: the stored document gets that value and a new \<^verbatim>\<open>updatedAt\<close>.\<close>

definition Product_save :: "int \<Rightarrow> IProduct \<Rightarrow> world \<Rightarrow> js_error + IProduct \<times> world" where
  "Product_save t product w =
     (case Product_findById (ident product) w of
        None \<Rightarrow> Inl DocumentNotFoundError
      | Some _ \<Rightarrow>
          Inr (product\<lparr> updatedAt := t \<rparr>,
               w\<lparr> collection :=
                    updateFirst (\<lambda>d. ident d = ident product)
                      (\<lambda>d. d\<lparr> featured := featured product, updatedAt := t \<rparr>)
                      (collection w) \<rparr>))"

subsection \<open>Queries\<close>

text \<open>
  The filter \<^verbatim>\<open>getAllProducts\<close> builds has at most two clauses: \<^verbatim>\<open>$or\<close> of
  \<^verbatim>\<open>{ name: { $regex: search, $options: 'i' } }\<close> and the same on \<^verbatim>\<open>description\<close>, and
  \<^verbatim>\<open>category\<close> equal to a string.
\<close>

record query =
  q_or_regex :: "string option"
  q_category :: "string option"

text \<open>
  \<^verbatim>\<open>$regex\<close> hands the search string to the store's regular-expression engine. The
  model covers this fragment of the pattern language: an ordinary character stands for
  itself, \<^verbatim>\<open>.\<close> for any character but a line feed, and a backslash before a character
  that is neither a letter nor a digit makes that character ordinary. A pattern that uses
  anything else (\<^verbatim>\<open>* + ? ( ) [ ] { } ^ $ |\<close>, a backslash before a letter or digit or at
  the end) is outside the fragment: \<open>regex_parse\<close> returns \<open>None\<close> and the model lets the
  query fail as it does for a malformed pattern. Option \<^verbatim>\<open>i\<close> compares letters without
  regard to case.
\<close>

datatype regex_atom = Lit char | AnyChar

definition isSpecial :: "char \<Rightarrow> bool" where
  "isSpecial c = (c \<in> set [CHR ''*'', CHR ''+'', CHR ''?'', CHR ''('', CHR '')'', CHR ''['',
                            CHR '']'', CHR ''{'', CHR ''}'', CHR ''^'', CHR ''$'', CHR ''|''])"

definition isAlphaNum :: "char \<Rightarrow> bool" where
  "isAlphaNum c =
     (c \<in> set ''abcdefghijklmnopqrstuvwxyzABCDEFGHIJKLMNOPQRSTUVWXYZ0123456789'')"

fun regex_parse :: "string \<Rightarrow> regex_atom list option" where
  "regex_parse [] = Some []"
| "regex_parse [c] =
     (if c = CHR 0x5C \<or> isSpecial c then None
      else Some [if c = CHR ''.'' then AnyChar else Lit c])"
| "regex_parse (c # e # cs) =
     (if c = CHR 0x5C
      then (if isAlphaNum e then None else map_option (Cons (Lit e)) (regex_parse cs))
      else if isSpecial c then None
      else map_option (Cons (if c = CHR ''.'' then AnyChar else Lit c)) (regex_parse (e # cs)))"

fun atomMatches :: "regex_atom \<Rightarrow> char \<Rightarrow> bool" where
  "atomMatches (Lit c) d = (toLowerChar c = toLowerChar d)"
| "atomMatches AnyChar d = (d \<noteq> CHR 0x0A)"

text \<open>The atoms match a prefix of the text.\<close>

fun matchHere :: "regex_atom list \<Rightarrow> string \<Rightarrow> bool" where
  "matchHere [] t = True"
| "matchHere (a # as) [] = False"
| "matchHere (a # as) (d # ds) = (atomMatches a d \<and> matchHere as ds)"

text \<open>An unanchored pattern matches when it matches at some position of the text.\<close>

fun regexSearch :: "regex_atom list \<Rightarrow> string \<Rightarrow> bool" where
  "regexSearch as [] = matchHere as []"
| "regexSearch as (d # ds) = (matchHere as (d # ds) \<or> regexSearch as ds)"

definition matchesQuery :: "regex_atom list option \<Rightarrow> string option \<Rightarrow> IProduct \<Rightarrow> bool" where
  "matchesQuery rx cat d =
     ((case rx of
         None \<Rightarrow> True
       | Some as \<Rightarrow> regexSearch as (name d) \<or> regexSearch as (description d)) \<and>
      (case cat of None \<Rightarrow> True | Some c \<Rightarrow> category d = c))"

definition RegexError :: js_error where
  "RegexError = \<lparr> err_code = NumCode 51091, err_message = Some ''Regular expression is invalid'' \<rparr>"

text \<open>The documents a filter selects, in collection order; an error when its pattern
  does not compile.\<close>

definition selectDocs :: "query \<Rightarrow> world \<Rightarrow> js_error + IProduct list" where
  "selectDocs q w =
     (case q_or_regex q of
        None \<Rightarrow> Inr (filter (matchesQuery None (q_category q)) (collection w))
      | Some pat \<Rightarrow>
          (case regex_parse pat of
             None \<Rightarrow> Inl RegexError
           | Some as \<Rightarrow> Inr (filter (matchesQuery (Some as) (q_category q)) (collection w))))"

text \<open>\<^verbatim>\<open>.sort({ createdAt: -1 })\<close>: newest first; documents with equal creation time keep
  their collection order.\<close>

definition sortByCreatedAtDesc :: "IProduct list \<Rightarrow> IProduct list" where
  "sortByCreatedAtDesc ds = sort_key (\<lambda>d. - createdAt d) ds"

definition SkipError :: js_error where
  "SkipError = \<lparr> err_code = NumCode 2, err_message = Some ''Skip value must be non-negative'' \<rparr>"

text \<open>
  \<^verbatim>\<open>Product.find(query).sort({ createdAt: -1 }).skip(skip).limit(limit).lean()\<close>. The store
  rejects a negative skip, reads a limit of \<open>0\<close> as no limit and a negative limit as its
  absolute value.
\<close>

definition Product_find :: "query \<Rightarrow> int \<Rightarrow> int \<Rightarrow> world \<Rightarrow> js_error + IProduct list" where
  "Product_find q skip lmt w =
     (case selectDocs q w of
        Inl err \<Rightarrow> Inl err
      | Inr ds \<Rightarrow>
          if skip < 0 then Inl SkipError
          else (let rest = drop (nat skip) (sortByCreatedAtDesc ds)
                in Inr (if lmt = 0 then rest else take (nat \<bar>lmt\<bar>) rest)))"

text \<open>\<^verbatim>\<open>Product.countDocuments(query)\<close>.\<close>

definition Product_countDocuments :: "query \<Rightarrow> world \<Rightarrow> js_error + nat" where
  "Product_countDocuments q w =
     (case selectDocs q w of Inl err \<Rightarrow> Inl err | Inr ds \<Rightarrow> Inr (length ds))"

text \<open>\<^verbatim>\<open>total / limit\<close> on two finite numbers, and \<^verbatim>\<open>Math.ceil\<close>.\<close>

definition divide_js :: "rat \<Rightarrow> rat \<Rightarrow> js_number" where
  "divide_js a b =
     (if b \<noteq> 0 then Finite (a / b)
      else if a = 0 then NaN
      else if 0 < a then PosInfinity else NegInfinity)"

definition Math_ceil :: "js_number \<Rightarrow> js_number" where
  "Math_ceil x = (case x of Finite r \<Rightarrow> Finite (of_int \<lceil>r\<rceil>) | _ \<Rightarrow> x)"

section \<open>The actions\<close>

text \<open>
  Each action is \<^verbatim>\<open>try { ... } catch (error) { ... }\<close>. The \<open>_try\<close> function is the
  body: it either throws (\<open>Inl\<close>; the store has not changed when it does) or returns a
  response and the world it leaves. The \<open>_catch\<close> function is the handler, and the action
  is the body with the handler applied to what it throws.
  \<^verbatim>\<open>JSON.parse(JSON.stringify(product))\<close> takes the plain snapshot of a document, which
  is what a record of the model already is.
\<close>

definition failure :: "string \<Rightarrow> ActionResponse" where
  "failure msg = \<lparr> success = False, data = None, error = Some msg, errors = None \<rparr>"

text \<open>\<^verbatim>\<open>error.message || fallback\<close>.\<close>

definition messageOr :: "js_error \<Rightarrow> string \<Rightarrow> string" where
  "messageOr err fallback =
     (case err_message err of
        None \<Rightarrow> fallback
      | Some m \<Rightarrow> if m = [] then fallback else m)"

subsection \<open>\<^verbatim>\<open>createProduct\<close>\<close>

definition createProduct_rawData :: "FormData \<Rightarrow> RawProductData" where
  "createProduct_rawData formData =
     \<lparr> raw_name = fd_get formData ''name'',
       raw_description = fd_get formData ''description'',
       raw_price = Number_js (fd_get formData ''price''),
       raw_stock = Number_js (fd_get formData ''stock''),
       raw_category = fd_get formData ''category'',
       raw_images = filter (\<lambda>img. img \<noteq> EString []) (fd_getAll formData ''images''),
       raw_featured = (fd_get formData ''featured'' = Some (EString ''true'') \<or>
                       fd_get formData ''featured'' = Some (EString ''on'')) \<rparr>"

definition createProduct_try ::
    "validations \<Rightarrow> env \<Rightarrow> FormData \<Rightarrow> world \<Rightarrow> js_error + ActionResponse \<times> world" where
  "createProduct_try V e formData w =
     (case connectFault e of
        Some err \<Rightarrow> Inl err
      | None \<Rightarrow>
          (case validateProduct V (createProduct_rawData formData) of
             Inl zerr \<Rightarrow>
               Inr (\<lparr> success = False, data = None, error = Some ''Validation failed'',
                      errors = Some (formatValidationErrors V zerr) \<rparr>, w)
           | Inr validated \<Rightarrow>
               (case withFault (storeFault e 0) (Product_create (now e) validated w) of
                  Inl err \<Rightarrow> Inl err
                | Inr (product, w') \<Rightarrow>
                    Inr (\<lparr> success = True, data = Some (ProductData product), error = None,
                           errors = None \<rparr>,
                         revalidatePath ''/dashboard/products'' w'))))"

definition createProduct_catch :: "js_error \<Rightarrow> ActionResponse" where
  "createProduct_catch err =
     (if err_code err = NumCode 11000 then failure ''A product with this name already exists''
      else failure (messageOr err ''Failed to create product. Please try again.''))"

definition createProduct :: "validations \<Rightarrow> env \<Rightarrow> FormData \<Rightarrow> world \<Rightarrow> ActionResponse \<times> world" where
  "createProduct V e formData w =
     (case createProduct_try V e formData w of
        Inl err \<Rightarrow> (createProduct_catch err, w)
      | Inr r \<Rightarrow> r)"

subsection \<open>\<^verbatim>\<open>updateProduct\<close>\<close>

definition updateProduct_rawData :: "FormData \<Rightarrow> PartialRawData" where
  "updateProduct_rawData formData =
     (let images = filter (\<lambda>img. img \<noteq> EString []) (fd_getAll formData ''images'')
      in \<lparr> part_name = (if fd_has formData ''name'' then fd_get formData ''name'' else None),
           part_description =
             (if fd_has formData ''description'' then fd_get formData ''description'' else None),
           part_price =
             (if fd_has formData ''price'' then Some (Number_js (fd_get formData ''price''))
              else None),
           part_stock =
             (if fd_has formData ''stock'' then Some (Number_js (fd_get formData ''stock''))
              else None),
           part_category =
             (if fd_has formData ''category'' then fd_get formData ''category'' else None),
           part_featured =
             (if fd_has formData ''featured''
              then Some (fd_get formData ''featured'' = Some (EString ''true'') \<or>
                         fd_get formData ''featured'' = Some (EString ''on''))
              else None),
           part_images = (if 0 < length images then Some images else None) \<rparr>)"

definition updateProduct_try ::
    "validations \<Rightarrow> env \<Rightarrow> string \<Rightarrow> FormData \<Rightarrow> world
      \<Rightarrow> js_error + ActionResponse \<times> world" where
  "updateProduct_try V e i formData w =
     (case connectFault e of
        Some err \<Rightarrow> Inl err
      | None \<Rightarrow>
          (case validateUpdateProduct V (updateProduct_rawData formData) of
             Inl zerr \<Rightarrow>
               Inr (\<lparr> success = False, data = None, error = Some ''Validation failed'',
                      errors = Some (formatValidationErrors V zerr) \<rparr>, w)
           | Inr validated \<Rightarrow>
               (case withFault (storeFault e 0)
                       (Product_findByIdAndUpdate (now e) i validated w) of
                  Inl err \<Rightarrow> Inl err
                | Inr (None, w') \<Rightarrow> Inr (failure ''Product not found'', w')
                | Inr (Some product, w') \<Rightarrow>
                    Inr (\<lparr> success = True, data = Some (ProductData product), error = None,
                           errors = None \<rparr>,
                         revalidatePath (''/dashboard/products/'' @ i)
                           (revalidatePath ''/dashboard/products'' w')))))"

definition updateProduct_catch :: "js_error \<Rightarrow> ActionResponse" where
  "updateProduct_catch err = failure (messageOr err ''Failed to update product. Please try again.'')"

definition updateProduct ::
    "validations \<Rightarrow> env \<Rightarrow> string \<Rightarrow> FormData \<Rightarrow> world \<Rightarrow> ActionResponse \<times> world" where
  "updateProduct V e i formData w =
     (case updateProduct_try V e i formData w of
        Inl err \<Rightarrow> (updateProduct_catch err, w)
      | Inr r \<Rightarrow> r)"

subsection \<open>\<^verbatim>\<open>deleteProduct\<close>\<close>

definition deleteProduct_try :: "env \<Rightarrow> string \<Rightarrow> world \<Rightarrow> js_error + ActionResponse \<times> world" where
  "deleteProduct_try e i w =
     (case connectFault e of
        Some err \<Rightarrow> Inl err
      | None \<Rightarrow>
          (case withFault (storeFault e 0) (Inr (Product_findByIdAndDelete i w)) of
             Inl err \<Rightarrow> Inl err
           | Inr (None, w') \<Rightarrow> Inr (failure ''Product not found'', w')
           | Inr (Some product, w') \<Rightarrow>
               Inr (\<lparr> success = True, data = Some (MessageData ''Product deleted successfully''),
                      error = None, errors = None \<rparr>,
                    revalidatePath ''/dashboard/products'' w')))"

definition deleteProduct_catch :: "js_error \<Rightarrow> ActionResponse" where
  "deleteProduct_catch err = failure (messageOr err ''Failed to delete product. Please try again.'')"

definition deleteProduct :: "env \<Rightarrow> string \<Rightarrow> world \<Rightarrow> ActionResponse \<times> world" where
  "deleteProduct e i w =
     (case deleteProduct_try e i w of
        Inl err \<Rightarrow> (deleteProduct_catch err, w)
      | Inr r \<Rightarrow> r)"

subsection \<open>\<^verbatim>\<open>getProductById\<close>\<close>

definition getProductById_try :: "env \<Rightarrow> string \<Rightarrow> world \<Rightarrow> js_error + ActionResponse \<times> world" where
  "getProductById_try e i w =
     (case connectFault e of
        Some err \<Rightarrow> Inl err
      | None \<Rightarrow>
          (case withFault (storeFault e 0) (Inr (Product_findById i w)) of
             Inl err \<Rightarrow> Inl err
           | Inr None \<Rightarrow> Inr (failure ''Product not found'', w)
           | Inr (Some product) \<Rightarrow>
               Inr (\<lparr> success = True, data = Some (ProductData product), error = None,
                      errors = None \<rparr>, w)))"

definition getProductById_catch :: "js_error \<Rightarrow> ActionResponse" where
  "getProductById_catch err = failure (messageOr err ''Failed to fetch product. Please try again.'')"

definition getProductById :: "env \<Rightarrow> string \<Rightarrow> world \<Rightarrow> ActionResponse \<times> world" where
  "getProductById e i w =
     (case getProductById_try e i w of
        Inl err \<Rightarrow> (getProductById_catch err, w)
      | Inr r \<Rightarrow> r)"

subsection \<open>\<^verbatim>\<open>getAllProducts\<close>\<close>

text \<open>The optional argument \<^verbatim>\<open>params\<close>; each of its keys is optional too. \<^verbatim>\<open>page\<close> and
  \<^verbatim>\<open>limit\<close> are modelled for integer values.\<close>

record ListParams =
  search :: "string option"
  categoryParam :: "string option"
  page :: "int option"
  limit :: "int option"

text \<open>The destructuring with defaults: \<^verbatim>\<open>const { search = '', category = '', page = 1,
  limit = 10 } = params || {}\<close>.\<close>

definition searchOf :: "ListParams option \<Rightarrow> string" where
  "searchOf params = (case Option.bind params search of None \<Rightarrow> [] | Some s \<Rightarrow> s)"

definition categoryOf :: "ListParams option \<Rightarrow> string" where
  "categoryOf params = (case Option.bind params categoryParam of None \<Rightarrow> [] | Some c \<Rightarrow> c)"

definition pageOf :: "ListParams option \<Rightarrow> int" where
  "pageOf params = (case Option.bind params page of None \<Rightarrow> 1 | Some n \<Rightarrow> n)"

definition limitOf :: "ListParams option \<Rightarrow> int" where
  "limitOf params = (case Option.bind params limit of None \<Rightarrow> 10 | Some n \<Rightarrow> n)"

text \<open>The filter: a clause is added only for a truthy (non-empty) string.\<close>

definition buildQuery :: "ListParams option \<Rightarrow> query" where
  "buildQuery params =
     \<lparr> q_or_regex = (if searchOf params \<noteq> [] then Some (searchOf params) else None),
       q_category = (if categoryOf params \<noteq> [] then Some (categoryOf params) else None) \<rparr>"

definition getAllProducts_try ::
    "env \<Rightarrow> ListParams option \<Rightarrow> world \<Rightarrow> js_error + ActionResponse \<times> world" where
  "getAllProducts_try e params w =
     (case connectFault e of
        Some err \<Rightarrow> Inl err
      | None \<Rightarrow>
          (let q = buildQuery params;
               skip = (pageOf params - 1) * limitOf params
           in case withFault (storeFault e 0) (Product_find q skip (limitOf params) w) of
                Inl err \<Rightarrow> Inl err
              | Inr products \<Rightarrow>
                  (case withFault (storeFault e 1) (Product_countDocuments q w) of
                     Inl err \<Rightarrow> Inl err
                   | Inr totalDocs \<Rightarrow>
                       Inr (\<lparr> success = True,
                              data = Some (ProductsPage products
                                \<lparr> pg_page = pageOf params, pg_limit = limitOf params,
                                  pg_total = totalDocs,
                                  pg_totalPages =
                                    Math_ceil (divide_js (of_nat totalDocs)
                                      (of_int (limitOf params))) \<rparr>),
                              error = None, errors = None \<rparr>, w))))"

definition getAllProducts_catch :: "js_error \<Rightarrow> ActionResponse" where
  "getAllProducts_catch err = failure (messageOr err ''Failed to fetch products. Please try again.'')"

definition getAllProducts :: "env \<Rightarrow> ListParams option \<Rightarrow> world \<Rightarrow> ActionResponse \<times> world" where
  "getAllProducts e params w =
     (case getAllProducts_try e params w of
        Inl err \<Rightarrow> (getAllProducts_catch err, w)
      | Inr r \<Rightarrow> r)"

subsection \<open>\<^verbatim>\<open>toggleFeaturedStatus\<close>\<close>

definition toggleFeaturedStatus_try ::
    "env \<Rightarrow> string \<Rightarrow> world \<Rightarrow> js_error + ActionResponse \<times> world" where
  "toggleFeaturedStatus_try e i w =
     (case connectFault e of
        Some err \<Rightarrow> Inl err
      | None \<Rightarrow>
          (case withFault (storeFault e 0) (Inr (Product_findById i w)) of
             Inl err \<Rightarrow> Inl err
           | Inr None \<Rightarrow> Inr (failure ''Product not found'', w)
           | Inr (Some product) \<Rightarrow>
               (case withFault (storeFault e 1)
                       (Product_save (now e) (product\<lparr> featured := \<not> featured product \<rparr>) w) of
                  Inl err \<Rightarrow> Inl err
                | Inr (saved, w') \<Rightarrow>
                    Inr (\<lparr> success = True, data = Some (ProductData saved), error = None,
                           errors = None \<rparr>,
                         revalidatePath (''/dashboard/products/'' @ i)
                           (revalidatePath ''/dashboard/products'' w')))))"

definition toggleFeaturedStatus_catch :: "js_error \<Rightarrow> ActionResponse" where
  "toggleFeaturedStatus_catch err =
     failure (messageOr err ''Failed to update product. Please try again.'')"

definition toggleFeaturedStatus :: "env \<Rightarrow> string \<Rightarrow> world \<Rightarrow> ActionResponse \<times> world" where
  "toggleFeaturedStatus e i w =
     (case toggleFeaturedStatus_try e i w of
        Inl err \<Rightarrow> (toggleFeaturedStatus_catch err, w)
      | Inr r \<Rightarrow> r)"

section \<open>Example inputs\<close>

text \<open>An environment in which the connection and every store call succeed, a stored
  product, a collection holding it, and a form that passes validation.\<close>

definition exampleEnv :: env where
  "exampleEnv = \<lparr> now = 1000, connectFault = None, storeFault = (\<lambda>k. None) \<rparr>"

definition exampleProduct :: IProduct where
  "exampleProduct =
     \<lparr> name = ''Wireless Mouse'', description = ''A mouse'', price = 1999 / 100, stock = 5,
       category = ''Electronics'', images = [''a.png''], featured = False, ident = ''id0'',
       createdAt = 900, updatedAt = 900 \<rparr>"

definition exampleWorld :: world where
  "exampleWorld = \<lparr> collection = [exampleProduct], nextId = 1, revalidated = [] \<rparr>"

definition emptyWorld :: world where
  "emptyWorld = \<lparr> collection = [], nextId = 0, revalidated = [] \<rparr>"

definition exampleForm :: FormData where
  "exampleForm =
     [(''name'', EString ''Wireless Mouse''), (''description'', EString ''A mouse''),
      (''price'', EString ''19.99''), (''stock'', EString ''5''),
      (''category'', EString ''Electronics'')]"

text \<open>An environment in which \<^verbatim>\<open>dbConnect()\<close> rejects.\<close>

definition downEnv :: env where
  "downEnv =
     \<lparr> now = 1000,
       connectFault = Some \<lparr> err_code = StrCode ''ECONNREFUSED'',
                             err_message = Some ''connect ECONNREFUSED'' \<rparr>,
       storeFault = (\<lambda>k. None) \<rparr>"

text \<open>A collection of three products created at different times, stored out of order.\<close>

definition threeProducts :: world where
  "threeProducts =
     \<lparr> collection =
         [exampleProduct\<lparr> ident := ''id1'', createdAt := 100 \<rparr>,
          exampleProduct\<lparr> ident := ''id2'', createdAt := 300 \<rparr>,
          exampleProduct\<lparr> ident := ''id3'', createdAt := 200 \<rparr>],
       nextId = 4, revalidated = [] \<rparr>"



text \<open>An update form that changes the price and submits one empty \<^verbatim>\<open>images\<close> entry.\<close>

definition updateForm :: FormData where
  "updateForm = [(''price'', EString ''7''), (''images'', EString [])]"

section \<open>Deleting a product\<close>



section \<open>Toggling the featured flag\<close>








section \<open>Validation failures\<close>

text \<open>
  Claim C6. When the connection is up and the validator rejects the data built from the
  form, \<^verbatim>\<open>createProduct\<close> and \<^verbatim>\<open>updateProduct\<close> return \<^verbatim>\<open>success: false\<close> with the error
  \<^verbatim>\<open>Validation failed\<close> and the formatted field errors, and the world they leave is the
  world they started in: nothing is stored or changed and no path is revalidated. This
  holds for every validation module and whatever the store would have answered (the
  environment's store faults are arbitrary), so no store call is made.
\<close>

theorem validation_failure_returns_early:
  assumes "connectFault e = None"
  shows "(\<forall>zerr. validateProduct V (createProduct_rawData formData) = Inl zerr \<longrightarrow>
            createProduct V e formData w =
              (\<lparr> success = False, data = None, error = Some ''Validation failed'',
                 errors = Some (formatValidationErrors V zerr) \<rparr>, w)) \<and>
         (\<forall>zerr. validateUpdateProduct V (updateProduct_rawData formData) = Inl zerr \<longrightarrow>
            updateProduct V e i formData w =
              (\<lparr> success = False, data = None, error = Some ''Validation failed'',
                 errors = Some (formatValidationErrors V zerr) \<rparr>, w))"
  using assms
  by (simp add: createProduct_def createProduct_try_def updateProduct_def updateProduct_try_def)

lemma trim_ab: "trim ''ab'' = ''ab''"
  by (simp add: trim_def isWhiteSpace_def)

lemma ex_create_invalid:
  "validateProduct specValidations (createProduct_rawData [(''name'', EString ''ab'')]) =
     Inl [(''name'', ''Name must be between 3 and 100 characters''),
          (''description'', ''Description is required''),
          (''category'', ''Category is required'')]"
  by (simp add: specValidations_def validateProduct_spec_def createProduct_rawData_def fd_get_def
      fd_getAll_def check_name_def check_description_def check_price_def check_stock_def
      check_category_def check_images_def issuesOf_def Number_js_def trim_ab
      Number_isInteger_def)

lemma ex_update_invalid:
  "validateUpdateProduct specValidations (updateProduct_rawData [(''name'', EString ''ab'')]) =
     Inl [(''name'', ''Name must be between 3 and 100 characters'')]"
  by (simp add: specValidations_def validateUpdateProduct_spec_def updateProduct_rawData_def
      fd_get_def fd_has_def fd_getAll_def check_name_def check_opt_def issuesOf_def trim_ab)

theorem validation_failure_returns_early_witness:
  "createProduct specValidations
     \<lparr> now = 1000, connectFault = None, storeFault = (\<lambda>k. Some E11000) \<rparr>
     [(''name'', EString ''ab'')] exampleWorld =
     (\<lparr> success = False, data = None, error = Some ''Validation failed'',
        errors = Some [\<lparr> field = ''name'', message = ''Name must be between 3 and 100 characters'' \<rparr>,
                       \<lparr> field = ''description'', message = ''Description is required'' \<rparr>,
                       \<lparr> field = ''category'', message = ''Category is required'' \<rparr>] \<rparr>,
      exampleWorld) \<and>
   updateProduct specValidations
     \<lparr> now = 1000, connectFault = None, storeFault = (\<lambda>k. Some E11000) \<rparr> ''id0''
     [(''name'', EString ''ab'')] exampleWorld =
     (\<lparr> success = False, data = None, error = Some ''Validation failed'',
        errors = Some [\<lparr> field = ''name'', message = ''Name must be between 3 and 100 characters'' \<rparr>] \<rparr>,
      exampleWorld)"
proof -
  have c: "connectFault \<lparr> now = 1000, connectFault = None, storeFault = (\<lambda>k. Some E11000) \<rparr> = None"
    by simp
  have f: "formatValidationErrors specValidations = formatValidationErrors_spec"
    by (simp add: specValidations_def)
  from validation_failure_returns_early [OF c, of specValidations "[(''name'', EString ''ab'')]"
      exampleWorld "''id0''"] ex_create_invalid ex_update_invalid
  show ?thesis by (simp add: f formatValidationErrors_spec_def)
qed

section \<open>Empty-string filters\<close>







section \<open>Errors are returned, never thrown\<close>

lemma catch_handlers_fail:
  "\<not> success (createProduct_catch err)" "\<not> success (updateProduct_catch err)"
  "\<not> success (deleteProduct_catch err)" "\<not> success (getProductById_catch err)"
  "\<not> success (getAllProducts_catch err)" "\<not> success (toggleFeaturedStatus_catch err)"
  by (simp_all add: createProduct_catch_def updateProduct_catch_def deleteProduct_catch_def
      getProductById_catch_def getAllProducts_catch_def toggleFeaturedStatus_catch_def
      failure_def)

lemma createProduct_success:
  assumes "success (fst (createProduct V e formData w))"
  shows "connectFault e = None \<and> storeFault e 0 = None \<and>
         (\<exists>validated product w'.
            validateProduct V (createProduct_rawData formData) = Inr validated \<and>
            Product_create (now e) validated w = Inr (product, w'))"
  using assms
  by (auto simp: createProduct_def createProduct_try_def withFault_def catch_handlers_fail
      split: option.splits sum.splits prod.splits)

lemma updateProduct_success:
  assumes "success (fst (updateProduct V e i formData w))"
  shows "connectFault e = None \<and> storeFault e 0 = None \<and>
         (\<exists>validated product w'.
            validateUpdateProduct V (updateProduct_rawData formData) = Inr validated \<and>
            Product_findByIdAndUpdate (now e) i validated w = Inr (Some product, w'))"
  using assms
  by (auto simp: updateProduct_def updateProduct_try_def withFault_def catch_handlers_fail
      failure_def split: option.splits sum.splits prod.splits)

lemma deleteProduct_success:
  assumes "success (fst (deleteProduct e i w))"
  shows "connectFault e = None \<and> storeFault e 0 = None \<and> Product_findById i w \<noteq> None"
  using assms
  by (auto simp: deleteProduct_def deleteProduct_try_def withFault_def catch_handlers_fail
      failure_def Product_findByIdAndDelete_def split: option.splits sum.splits prod.splits)

lemma getProductById_success:
  assumes "success (fst (getProductById e i w))"
  shows "connectFault e = None \<and> storeFault e 0 = None \<and> Product_findById i w \<noteq> None"
  using assms
  by (auto simp: getProductById_def getProductById_try_def withFault_def catch_handlers_fail
      failure_def split: option.splits sum.splits prod.splits)

lemma getAllProducts_success:
  assumes "success (fst (getAllProducts e params w))"
  shows "connectFault e = None \<and> storeFault e 0 = None \<and> storeFault e 1 = None \<and>
         (\<exists>products.
            Product_find (buildQuery params) ((pageOf params - 1) * limitOf params)
              (limitOf params) w = Inr products) \<and>
         (\<exists>n. Product_countDocuments (buildQuery params) w = Inr n)"
  using assms
  by (auto simp: getAllProducts_def getAllProducts_try_def withFault_def catch_handlers_fail
      Let_def split: option.splits sum.splits prod.splits)

lemma toggleFeaturedStatus_success:
  assumes "success (fst (toggleFeaturedStatus e i w))"
  shows "connectFault e = None \<and> storeFault e 0 = None \<and> storeFault e 1 = None \<and>
         Product_findById i w \<noteq> None"
  using assms
  by (auto simp: toggleFeaturedStatus_def toggleFeaturedStatus_try_def withFault_def
      catch_handlers_fail failure_def split: option.splits sum.splits prod.splits)

lemma createProduct_error_set:
  "success (fst (createProduct V e formData w)) \<or> error (fst (createProduct V e formData w)) \<noteq> None"
  by (auto simp: createProduct_def createProduct_try_def createProduct_catch_def failure_def
      split: option.splits sum.splits prod.splits)

lemma updateProduct_error_set:
  "success (fst (updateProduct V e i formData w)) \<or>
     error (fst (updateProduct V e i formData w)) \<noteq> None"
  by (auto simp: updateProduct_def updateProduct_try_def updateProduct_catch_def failure_def
      split: option.splits sum.splits prod.splits)

lemma deleteProduct_error_set:
  "success (fst (deleteProduct e i w)) \<or> error (fst (deleteProduct e i w)) \<noteq> None"
  by (auto simp: deleteProduct_def deleteProduct_try_def deleteProduct_catch_def failure_def
      split: option.splits sum.splits prod.splits)

lemma getProductById_error_set:
  "success (fst (getProductById e i w)) \<or> error (fst (getProductById e i w)) \<noteq> None"
  by (auto simp: getProductById_def getProductById_try_def getProductById_catch_def failure_def
      split: option.splits sum.splits prod.splits)

lemma getAllProducts_error_set:
  "success (fst (getAllProducts e params w)) \<or> error (fst (getAllProducts e params w)) \<noteq> None"
  by (auto simp: getAllProducts_def getAllProducts_try_def getAllProducts_catch_def failure_def
      Let_def split: option.splits sum.splits prod.splits)

lemma toggleFeaturedStatus_error_set:
  "success (fst (toggleFeaturedStatus e i w)) \<or>
     error (fst (toggleFeaturedStatus e i w)) \<noteq> None"
  by (auto simp: toggleFeaturedStatus_def toggleFeaturedStatus_try_def
      toggleFeaturedStatus_catch_def failure_def split: option.splits sum.splits prod.splits)

lemma createProduct_duplicate_key:
  assumes "connectFault e = None"
    and "validateProduct V (createProduct_rawData formData) = Inr validated"
    and "withFault (storeFault e 0) (Product_create (now e) validated w) = Inl err"
    and "err_code err = NumCode 11000"
  shows "createProduct V e formData w =
           (failure ''A product with this name already exists'', w)"
  using assms
  by (simp add: createProduct_def createProduct_try_def createProduct_catch_def)

text \<open>
  Claim C9. Every action is a total function into responses: what its body throws is
  turned into a response by its handler. The theorem reads the claim backwards: an action
  answers \<^verbatim>\<open>success: true\<close> only if the connection was established, no store call
  rejected, validation passed, the store accepted the write and the entity was found.
  So every validation error, missing entity, duplicate key and other store or
  connectivity failure yields a response with \<^verbatim>\<open>success: false\<close>; each such response
  carries an \<^verbatim>\<open>error\<close> text, and a thrown error with code 11000 is answered by
  \<^verbatim>\<open>createProduct\<close> with the duplicate-name message.
\<close>

theorem actions_return_errors_as_values:
  "(success (fst (createProduct V e formData w)) \<longrightarrow>
      connectFault e = None \<and> storeFault e 0 = None \<and>
      (\<exists>validated product w'.
         validateProduct V (createProduct_rawData formData) = Inr validated \<and>
         Product_create (now e) validated w = Inr (product, w'))) \<and>
   (success (fst (updateProduct V e i formData w)) \<longrightarrow>
      connectFault e = None \<and> storeFault e 0 = None \<and>
      (\<exists>validated product w'.
         validateUpdateProduct V (updateProduct_rawData formData) = Inr validated \<and>
         Product_findByIdAndUpdate (now e) i validated w = Inr (Some product, w'))) \<and>
   (success (fst (deleteProduct e i w)) \<longrightarrow>
      connectFault e = None \<and> storeFault e 0 = None \<and> Product_findById i w \<noteq> None) \<and>
   (success (fst (getProductById e i w)) \<longrightarrow>
      connectFault e = None \<and> storeFault e 0 = None \<and> Product_findById i w \<noteq> None) \<and>
   (success (fst (getAllProducts e params w)) \<longrightarrow>
      connectFault e = None \<and> storeFault e 0 = None \<and> storeFault e 1 = None \<and>
      (\<exists>products.
         Product_find (buildQuery params) ((pageOf params - 1) * limitOf params)
           (limitOf params) w = Inr products) \<and>
      (\<exists>n. Product_countDocuments (buildQuery params) w = Inr n)) \<and>
   (success (fst (toggleFeaturedStatus e i w)) \<longrightarrow>
      connectFault e = None \<and> storeFault e 0 = None \<and> storeFault e 1 = None \<and>
      Product_findById i w \<noteq> None) \<and>
   (\<forall>r \<in> {fst (createProduct V e formData w), fst (updateProduct V e i formData w),
            fst (deleteProduct e i w), fst (getProductById e i w),
            fst (getAllProducts e params w), fst (toggleFeaturedStatus e i w)}.
      success r \<or> error r \<noteq> None) \<and>
   (\<forall>err validated.
      connectFault e = None \<and>
      validateProduct V (createProduct_rawData formData) = Inr validated \<and>
      withFault (storeFault e 0) (Product_create (now e) validated w) = Inl err \<and>
      err_code err = NumCode 11000 \<longrightarrow>
      createProduct V e formData w =
        (failure ''A product with this name already exists'', w))"
proof -
  have all: "\<forall>r \<in> {fst (createProduct V e formData w), fst (updateProduct V e i formData w),
            fst (deleteProduct e i w), fst (getProductById e i w),
            fst (getAllProducts e params w), fst (toggleFeaturedStatus e i w)}.
      success r \<or> error r \<noteq> None"
    using createProduct_error_set [of V e formData w] updateProduct_error_set [of V e i formData w]
      deleteProduct_error_set [of e i w] getProductById_error_set [of e i w]
      getAllProducts_error_set [of e params w] toggleFeaturedStatus_error_set [of e i w]
    by simp
  have dup: "\<forall>err validated.
      connectFault e = None \<and>
      validateProduct V (createProduct_rawData formData) = Inr validated \<and>
      withFault (storeFault e 0) (Product_create (now e) validated w) = Inl err \<and>
      err_code err = NumCode 11000 \<longrightarrow>
      createProduct V e formData w =
        (failure ''A product with this name already exists'', w)"
    by (intro allI impI, elim conjE) (rule createProduct_duplicate_key)
  show ?thesis
    apply (intro conjI)
           apply (rule impI, erule createProduct_success)
          apply (rule impI, erule updateProduct_success)
         apply (rule impI, erule deleteProduct_success)
        apply (rule impI, erule getProductById_success)
       apply (rule impI, erule getAllProducts_success)
      apply (rule impI, erule toggleFeaturedStatus_success)
     apply (rule all)
    apply (rule dup)
    done
qed


theorem actions_return_errors_as_values_witness:
  "success (fst (createProduct specValidations downEnv exampleForm emptyWorld)) = False \<and>
   success (fst (updateProduct specValidations downEnv ''id0'' exampleForm exampleWorld)) = False \<and>
   success (fst (deleteProduct downEnv ''id0'' exampleWorld)) = False \<and>
   success (fst (getProductById downEnv ''id0'' exampleWorld)) = False \<and>
   success (fst (getAllProducts downEnv None exampleWorld)) = False \<and>
   success (fst (toggleFeaturedStatus downEnv ''id0'' exampleWorld)) = False"
proof -
  have d: "connectFault downEnv \<noteq> None"
    by (simp add: downEnv_def)
  note t1 = actions_return_errors_as_values
    [where V = specValidations and e = downEnv and formData = exampleForm and w = emptyWorld
       and i = "''id0''" and params = None]
  note t2 = actions_return_errors_as_values
    [where V = specValidations and e = downEnv and formData = exampleForm and w = exampleWorld
       and i = "''id0''" and params = None]
  have 1: "\<not> success (fst (createProduct specValidations downEnv exampleForm emptyWorld))"
    using d t1 [THEN conjunct1] by auto
  note r2 = t2 [THEN conjunct2]
  have 2: "\<not> success (fst (updateProduct specValidations downEnv ''id0'' exampleForm exampleWorld))"
    using d r2 [THEN conjunct1] by auto
  note r3 = r2 [THEN conjunct2]
  have 3: "\<not> success (fst (deleteProduct downEnv ''id0'' exampleWorld))"
    using d r3 [THEN conjunct1] by auto
  note r4 = r3 [THEN conjunct2]
  have 4: "\<not> success (fst (getProductById downEnv ''id0'' exampleWorld))"
    using d r4 [THEN conjunct1] by auto
  note r5 = r4 [THEN conjunct2]
  have 5: "\<not> success (fst (getAllProducts downEnv None exampleWorld))"
    using d r5 [THEN conjunct1] by auto
  note r6 = r5 [THEN conjunct2]
  have 6: "\<not> success (fst (toggleFeaturedStatus downEnv ''id0'' exampleWorld))"
    using d r6 [THEN conjunct1] by auto
  show ?thesis using 1 2 3 4 5 6 by simp
qed

section \<open>Pagination\<close>

lemma Math_ceil_divide:
  "b \<noteq> 0 \<Longrightarrow> Math_ceil (divide_js a b) = Finite (of_int \<lceil>a / b\<rceil>)"
  by (simp add: Math_ceil_def divide_js_def)

lemma Product_find_page:
  assumes "selectDocs q w = Inr matching" and "0 \<le> skip" and "1 \<le> lmt"
  shows "Product_find q skip lmt w =
           Inr (take (nat lmt) (drop (nat skip) (sortByCreatedAtDesc matching)))"
  using assms by (simp add: Product_find_def)

lemma sortByCreatedAtDesc_sorted:
  "sorted_wrt (\<lambda>a b. createdAt b \<le> createdAt a) (sortByCreatedAtDesc ds)"
proof -
  have "sorted (map (\<lambda>d. - createdAt d) (sort_key (\<lambda>d. - createdAt d) ds))"
    by (rule sorted_sort_key)
  then show ?thesis
    by (simp add: sortByCreatedAtDesc_def sorted_map)
qed

lemma sortByCreatedAtDesc_mset: "mset (sortByCreatedAtDesc ds) = mset ds"
  by (simp add: sortByCreatedAtDesc_def)

lemma getAllProducts_answer:
  assumes "connectFault e = None" and "storeFault e 0 = None" and "storeFault e 1 = None"
    and "selectDocs (buildQuery params) w = Inr matching"
    and "1 \<le> pageOf params" and "1 \<le> limitOf params"
  shows "getAllProducts e params w =
    (\<lparr> success = True,
       data = Some (ProductsPage
         (take (nat (limitOf params))
            (drop (nat ((pageOf params - 1) * limitOf params)) (sortByCreatedAtDesc matching)))
         \<lparr> pg_page = pageOf params, pg_limit = limitOf params, pg_total = length matching,
           pg_totalPages =
             Finite (of_int \<lceil>(of_nat (length matching) :: rat) / of_int (limitOf params)\<rceil>) \<rparr>),
       error = None, errors = None \<rparr>, w)"
proof -
  have s: "0 \<le> (pageOf params - 1) * limitOf params"
    using assms(5,6) by simp
  have l: "(of_int (limitOf params) :: rat) \<noteq> 0"
    using assms(6) by simp
  show ?thesis
    using assms(1-4)
    by (simp add: getAllProducts_def getAllProducts_try_def withFault_def
        Product_find_page [OF assms(4) s assms(6)] Product_countDocuments_def
        Math_ceil_divide [OF l])
qed

text \<open>
  Claim C4, as amended. For every call of \<^verbatim>\<open>getAllProducts\<close> with integer \<^verbatim>\<open>page\<close> and
  \<^verbatim>\<open>limit\<close> of at least 1 that the store answers, and whose filter the store accepts
  (\<open>matching\<close> are the documents it selects): \<^verbatim>\<open>page\<close> defaults to 1 and \<^verbatim>\<open>limit\<close> to 10;
  the page returned is the matching documents sorted by creation time, newest first,
  without the first \<open>(page - 1) * limit\<close> and cut to at most \<open>limit\<close>; the summary is
  \<open>{page, limit, total, totalPages}\<close> with \<open>total\<close> the number of matching documents and
  \<open>totalPages\<close> the ceiling of \<open>total / limit\<close>; the world is unchanged. With 25 matching
  documents, \<open>limit = 10\<close> and \<open>page = 3\<close>, \<open>totalPages\<close> is 3 and the page has 5 items.
\<close>

theorem getAllProducts_pagination:
  assumes "connectFault e = None" and "storeFault e 0 = None" and "storeFault e 1 = None"
    and "selectDocs (buildQuery params) w = Inr matching"
    and "1 \<le> pageOf params" and "1 \<le> limitOf params"
  shows "pageOf None = 1 \<and> limitOf None = 10 \<and>
    pageOf (Some (p\<lparr> page := None \<rparr>)) = 1 \<and> limitOf (Some (p\<lparr> limit := None \<rparr>)) = 10 \<and>
    getAllProducts e params w =
      (\<lparr> success = True,
         data = Some (ProductsPage
           (take (nat (limitOf params))
              (drop (nat ((pageOf params - 1) * limitOf params)) (sortByCreatedAtDesc matching)))
           \<lparr> pg_page = pageOf params, pg_limit = limitOf params, pg_total = length matching,
             pg_totalPages =
               Finite (of_int \<lceil>(of_nat (length matching) :: rat) / of_int (limitOf params)\<rceil>) \<rparr>),
         error = None, errors = None \<rparr>, w) \<and>
    int (length (take (nat (limitOf params))
           (drop (nat ((pageOf params - 1) * limitOf params)) (sortByCreatedAtDesc matching))))
      \<le> limitOf params \<and>
    sorted_wrt (\<lambda>a b. createdAt b \<le> createdAt a) (sortByCreatedAtDesc matching) \<and>
    mset (sortByCreatedAtDesc matching) = mset matching \<and>
    (length matching = 25 \<and> pageOf params = 3 \<and> limitOf params = 10 \<longrightarrow>
       \<lceil>(of_nat (length matching) :: rat) / of_int (limitOf params)\<rceil> = 3 \<and>
       length (take (nat (limitOf params))
           (drop (nat ((pageOf params - 1) * limitOf params)) (sortByCreatedAtDesc matching)))
         = 5)"
proof -
  have d: "pageOf None = 1 \<and> limitOf None = 10 \<and>
    pageOf (Some (p\<lparr> page := None \<rparr>)) = 1 \<and> limitOf (Some (p\<lparr> limit := None \<rparr>)) = 10"
    by (simp add: pageOf_def limitOf_def)
  have n: "int (length (take (nat (limitOf params))
           (drop (nat ((pageOf params - 1) * limitOf params)) (sortByCreatedAtDesc matching))))
      \<le> limitOf params"
    using assms(6) by simp
  have i: "length matching = 25 \<and> pageOf params = 3 \<and> limitOf params = 10 \<longrightarrow>
       \<lceil>(of_nat (length matching) :: rat) / of_int (limitOf params)\<rceil> = 3 \<and>
       length (take (nat (limitOf params))
           (drop (nat ((pageOf params - 1) * limitOf params)) (sortByCreatedAtDesc matching)))
         = 5"
    by (simp add: ceiling_eq_iff sortByCreatedAtDesc_def)
  show ?thesis
    using d getAllProducts_answer [OF assms] n sortByCreatedAtDesc_sorted [of matching]
      sortByCreatedAtDesc_mset [of matching] i
    by (intro conjI) (elim conjE, assumption)+
qed

lemma threeProducts_sorted:
  "sortByCreatedAtDesc (collection threeProducts) =
     [exampleProduct\<lparr> ident := ''id2'', createdAt := 300 \<rparr>,
      exampleProduct\<lparr> ident := ''id3'', createdAt := 200 \<rparr>,
      exampleProduct\<lparr> ident := ''id1'', createdAt := 100 \<rparr>]"
  by (simp add: sortByCreatedAtDesc_def threeProducts_def exampleProduct_def)

theorem getAllProducts_pagination_witness:
  "getAllProducts exampleEnv
     (Some \<lparr> search = None, categoryParam = None, page = Some 2, limit = Some 2 \<rparr>) threeProducts =
     (\<lparr> success = True,
        data = Some (ProductsPage [exampleProduct\<lparr> ident := ''id1'', createdAt := 100 \<rparr>]
          \<lparr> pg_page = 2, pg_limit = 2, pg_total = 3, pg_totalPages = Finite 2 \<rparr>),
        error = None, errors = None \<rparr>, threeProducts)"
proof -
  let ?params = "Some \<lparr> search = None, categoryParam = None, page = Some 2, limit = Some 2 \<rparr>"
  have e: "connectFault exampleEnv = None" "storeFault exampleEnv 0 = None"
    "storeFault exampleEnv 1 = None"
    by (simp_all add: exampleEnv_def)
  have m: "selectDocs (buildQuery ?params) threeProducts = Inr (collection threeProducts)"
    by (simp add: buildQuery_def searchOf_def categoryOf_def selectDocs_def matchesQuery_def)
  have p: "pageOf ?params = 2" and l: "limitOf ?params = 2"
    by (simp_all add: pageOf_def limitOf_def)
  have p1: "1 \<le> pageOf ?params" and l1: "1 \<le> limitOf ?params"
    by (simp_all add: p l)
  have c: "\<lceil>(3::rat) / 2\<rceil> = 2"
    by (simp add: ceiling_eq_iff)
  have n: "length (collection threeProducts) = 3"
    by (simp add: threeProducts_def)
  note t = getAllProducts_pagination [OF e m p1 l1, of undefined,
      THEN conjunct2, THEN conjunct2, THEN conjunct2, THEN conjunct2, THEN conjunct1]
  show ?thesis
    using t by (simp add: p l threeProducts_sorted n c)
qed

text \<open>
  The claim as first stated speaks of every call. With \<open>limit = 0\<close> the store applies no
  limit: all three matching products come back, more than \<open>limit\<close>, and \<open>totalPages\<close> is
  \<^verbatim>\<open>Infinity\<close>. With \<open>page = 0\<close> the skip is negative, the store rejects the query and
  the action returns a failure without any page or summary.
\<close>

theorem getAllProducts_pagination_counterexample:
  "fst (getAllProducts exampleEnv
     (Some \<lparr> search = None, categoryParam = None, page = None, limit = Some 0 \<rparr>) threeProducts) =
     \<lparr> success = True,
       data = Some (ProductsPage
         [exampleProduct\<lparr> ident := ''id2'', createdAt := 300 \<rparr>,
          exampleProduct\<lparr> ident := ''id3'', createdAt := 200 \<rparr>,
          exampleProduct\<lparr> ident := ''id1'', createdAt := 100 \<rparr>]
         \<lparr> pg_page = 1, pg_limit = 0, pg_total = 3, pg_totalPages = PosInfinity \<rparr>),
       error = None, errors = None \<rparr> \<and>
   fst (getAllProducts exampleEnv
     (Some \<lparr> search = None, categoryParam = None, page = Some 0, limit = None \<rparr>) threeProducts) =
     failure ''Skip value must be non-negative''"
proof -
  let ?p0 = "Some \<lparr> search = None, categoryParam = None, page = None, limit = Some 0 \<rparr>"
  let ?p1 = "Some \<lparr> search = None, categoryParam = None, page = Some 0, limit = None \<rparr>"
  have m0: "selectDocs (buildQuery ?p0) threeProducts = Inr (collection threeProducts)"
    and m1: "selectDocs (buildQuery ?p1) threeProducts = Inr (collection threeProducts)"
    by (simp_all add: buildQuery_def searchOf_def categoryOf_def selectDocs_def matchesQuery_def)
  have f0: "Product_find (buildQuery ?p0) 0 0 threeProducts =
      Inr (sortByCreatedAtDesc (collection threeProducts))"
    by (simp add: Product_find_def m0)
  have f1: "Product_find (buildQuery ?p1) (- 10) 10 threeProducts = Inl SkipError"
    by (simp add: Product_find_def m1)
  have n: "length (collection threeProducts) = 3"
    by (simp add: threeProducts_def)
  show ?thesis
    by (simp add: getAllProducts_def getAllProducts_try_def getAllProducts_catch_def
        exampleEnv_def withFault_def pageOf_def limitOf_def f0 f1 threeProducts_sorted
        Product_countDocuments_def m0 n Math_ceil_def divide_js_def SkipError_def
        messageOr_def)
qed

section \<open>Search\<close>









section \<open>Two products with the same name\<close>

lemma exampleForm_valid:
  "validateProduct specValidations (createProduct_rawData exampleForm) =
     Inr \<lparr> name = ''Wireless Mouse'', description = ''A mouse'', price = 1999 / 100, stock = 5,
           category = ''Electronics'', images = [], featured = False \<rparr>"
  by code_simp

lemma schema_accepts_example:
  "ProductSchema_validate (ProductSchema_setters
     \<lparr> name = ''Wireless Mouse'', description = ''A mouse'', price = 1999 / 100, stock = 5,
       category = ''Electronics'', images = [], featured = False \<rparr>) = []"
  by code_simp

lemma duplicateKey_never: "\<not> duplicateKey doc docs"
  by (simp add: duplicateKey_def ProductSchema_indexes_def)

lemma Product_create_accepts:
  assumes "ProductSchema_validate (ProductSchema_setters validated) = []"
  shows "Product_create t validated w =
    Inr (\<lparr> name = trim (name validated), description = trim (description validated),
            price = price validated, stock = stock validated,
            category = trim (category validated), images = images validated,
            featured = featured validated, ident = objectId (nextId w),
            createdAt = t, updatedAt = t \<rparr>,
         w\<lparr> collection := collection w @
              [\<lparr> name = trim (name validated), description = trim (description validated),
                 price = price validated, stock = stock validated,
                 category = trim (category validated), images = images validated,
                 featured = featured validated, ident = objectId (nextId w),
                 createdAt = t, updatedAt = t \<rparr>],
            nextId := Suc (nextId w) \<rparr>)"
  using assms
  by (simp add: Product_create_def duplicateKey_never Let_def ProductSchema_setters_def)

lemma Product_create_never_11000:
  "Product_create t validated w = Inl err \<Longrightarrow> err_code err \<noteq> NumCode 11000"
  by (auto simp: Product_create_def duplicateKey_never Let_def ValidationError_def
      split: if_splits)

lemma createProduct_stores:
  assumes "connectFault e = None" and "storeFault e 0 = None"
    and "validateProduct V (createProduct_rawData formData) = Inr validated"
    and "ProductSchema_validate (ProductSchema_setters validated) = []"
  shows "createProduct V e formData w =
    (\<lparr> success = True,
       data = Some (ProductData
         \<lparr> name = trim (name validated), description = trim (description validated),
           price = price validated, stock = stock validated,
           category = trim (category validated), images = images validated,
           featured = featured validated, ident = objectId (nextId w),
           createdAt = now e, updatedAt = now e \<rparr>),
       error = None, errors = None \<rparr>,
     \<lparr> collection = collection w @
         [\<lparr> name = trim (name validated), description = trim (description validated),
            price = price validated, stock = stock validated,
            category = trim (category validated), images = images validated,
            featured = featured validated, ident = objectId (nextId w),
            createdAt = now e, updatedAt = now e \<rparr>],
       nextId = Suc (nextId w),
       revalidated = revalidated w @ [''/dashboard/products''] \<rparr>)"
  using assms
  by (simp add: createProduct_def createProduct_try_def withFault_def
      Product_create_accepts revalidatePath_def)

text \<open>
  Claim C1 says that of two \<^verbatim>\<open>createProduct\<close> calls with the same valid payload the
  second returns the duplicate-name error. The handler of \<^verbatim>\<open>createProduct\<close> has the
  branch for it (error code 11000), but the schema declares no unique index, so the store
  never raises that error: when the connection is up, the store answers, and the
  validator and the schema accept the data, both calls succeed and the collection ends
  with two products of the same name.
\<close>

theorem createProduct_twice_same_name:
  assumes "connectFault e = None" and "storeFault e 0 = None"
    and "connectFault e' = None" and "storeFault e' 0 = None"
    and "validateProduct V (createProduct_rawData formData) = Inr validated"
    and "ProductSchema_validate (ProductSchema_setters validated) = []"
  shows "success (fst (createProduct V e formData w)) \<and>
    success (fst (createProduct V e' formData (snd (createProduct V e formData w)))) \<and>
    error (fst (createProduct V e' formData (snd (createProduct V e formData w)))) = None \<and>
    map name (collection (snd (createProduct V e' formData (snd (createProduct V e formData w)))))
      = map name (collection w) @ [trim (name validated), trim (name validated)] \<and>
    (\<forall>t d w' err. Product_create t d w' = Inl err \<longrightarrow> err_code err \<noteq> NumCode 11000)"
proof -
  note first = createProduct_stores [OF assms(1,2,5,6), of w]
  note second = createProduct_stores [OF assms(3,4,5,6), of "snd (createProduct V e formData w)"]
  have "\<forall>t d w' err. Product_create t d w' = Inl err \<longrightarrow> err_code err \<noteq> NumCode 11000"
    using Product_create_never_11000 by blast
  then show ?thesis
    by (simp add: second) (simp add: first)
qed

theorem createProduct_twice_same_name_witness:
  "createProduct specValidations exampleEnv exampleForm
     (snd (createProduct specValidations exampleEnv exampleForm emptyWorld)) =
   (\<lparr> success = True,
      data = Some (ProductData
        \<lparr> name = ''Wireless Mouse'', description = ''A mouse'', price = 1999 / 100, stock = 5,
          category = ''Electronics'', images = [], featured = False, ident = ''id1'',
          createdAt = 1000, updatedAt = 1000 \<rparr>),
      error = None, errors = None \<rparr>,
    \<lparr> collection =
        [\<lparr> name = ''Wireless Mouse'', description = ''A mouse'', price = 1999 / 100, stock = 5,
           category = ''Electronics'', images = [], featured = False, ident = ''id0'',
           createdAt = 1000, updatedAt = 1000 \<rparr>,
         \<lparr> name = ''Wireless Mouse'', description = ''A mouse'', price = 1999 / 100, stock = 5,
           category = ''Electronics'', images = [], featured = False, ident = ''id1'',
           createdAt = 1000, updatedAt = 1000 \<rparr>],
      nextId = 2,
      revalidated = [''/dashboard/products'', ''/dashboard/products''] \<rparr>) \<and>
   success (fst (createProduct specValidations exampleEnv exampleForm emptyWorld)) = True"
proof -
  have e: "connectFault exampleEnv = None" "storeFault exampleEnv 0 = None"
    by (simp_all add: exampleEnv_def)
  note t = createProduct_twice_same_name
    [OF e e exampleForm_valid schema_accepts_example, of emptyWorld]
  have c: "createProduct specValidations exampleEnv exampleForm
     (snd (createProduct specValidations exampleEnv exampleForm emptyWorld)) =
   (\<lparr> success = True,
      data = Some (ProductData
        \<lparr> name = ''Wireless Mouse'', description = ''A mouse'', price = 1999 / 100, stock = 5,
          category = ''Electronics'', images = [], featured = False, ident = ''id1'',
          createdAt = 1000, updatedAt = 1000 \<rparr>),
      error = None, errors = None \<rparr>,
    \<lparr> collection =
        [\<lparr> name = ''Wireless Mouse'', description = ''A mouse'', price = 1999 / 100, stock = 5,
           category = ''Electronics'', images = [], featured = False, ident = ''id0'',
           createdAt = 1000, updatedAt = 1000 \<rparr>,
         \<lparr> name = ''Wireless Mouse'', description = ''A mouse'', price = 1999 / 100, stock = 5,
           category = ''Electronics'', images = [], featured = False, ident = ''id1'',
           createdAt = 1000, updatedAt = 1000 \<rparr>],
      nextId = 2,
      revalidated = [''/dashboard/products'', ''/dashboard/products''] \<rparr>)"
    by code_simp
  show ?thesis
    using t c by simp
qed

section \<open>Coercion of the numeric fields\<close>

















section \<open>The update payload\<close>

lemma fd_getAll_nonempty_has:
  "filter P (fd_getAll formData k) \<noteq> [] \<Longrightarrow> k \<in> set (map fst formData)"
  by (induction formData) (auto simp: fd_getAll_def split: if_splits)

lemma rawData_fields_supplied:
  "(part_name (updateProduct_rawData formData) \<noteq> None \<longrightarrow> ''name'' \<in> set (map fst formData)) \<and>
   (part_description (updateProduct_rawData formData) \<noteq> None \<longrightarrow>
      ''description'' \<in> set (map fst formData)) \<and>
   (part_price (updateProduct_rawData formData) \<noteq> None \<longrightarrow> ''price'' \<in> set (map fst formData)) \<and>
   (part_stock (updateProduct_rawData formData) \<noteq> None \<longrightarrow> ''stock'' \<in> set (map fst formData)) \<and>
   (part_category (updateProduct_rawData formData) \<noteq> None \<longrightarrow>
      ''category'' \<in> set (map fst formData)) \<and>
   (part_featured (updateProduct_rawData formData) \<noteq> None \<longrightarrow>
      ''featured'' \<in> set (map fst formData)) \<and>
   (part_images (updateProduct_rawData formData) \<noteq> None \<longrightarrow>
      ''images'' \<in> set (map fst formData))"
  using fd_getAll_nonempty_has [of "\<lambda>img. img \<noteq> EString []" formData "''images''"]
  by (simp add: updateProduct_rawData_def fd_has_def Let_def)

lemma check_opt_Some: "check_opt chk v = Inr (Some y) \<Longrightarrow> \<exists>x. v = Some x"
  by (cases v) (simp_all add: check_opt_def)

lemma validateUpdateProduct_spec_fields:
  assumes "validateUpdateProduct_spec raw = Inr validated"
  shows "(set_name validated \<noteq> None \<longrightarrow> part_name raw \<noteq> None) \<and>
         (set_description validated \<noteq> None \<longrightarrow> part_description raw \<noteq> None) \<and>
         (set_price validated \<noteq> None \<longrightarrow> part_price raw \<noteq> None) \<and>
         (set_stock validated \<noteq> None \<longrightarrow> part_stock raw \<noteq> None) \<and>
         (set_category validated \<noteq> None \<longrightarrow> part_category raw \<noteq> None) \<and>
         (set_featured validated \<noteq> None \<longrightarrow> part_featured raw \<noteq> None) \<and>
         (set_images validated \<noteq> None \<longrightarrow> part_images raw \<noteq> None)"
proof -
  from assms obtain n d p s c i where
    c: "check_opt (\<lambda>v. check_name (Some v)) (part_name raw) = Inr n"
       "check_opt (\<lambda>v. check_description (Some v)) (part_description raw) = Inr d"
       "check_opt check_price (part_price raw) = Inr p"
       "check_opt check_stock (part_stock raw) = Inr s"
       "check_opt (\<lambda>v. check_category (Some v)) (part_category raw) = Inr c"
       "check_opt check_images (part_images raw) = Inr i"
    and v: "validated =
      \<lparr> set_name = n, set_description = d, set_price = p, set_stock = s, set_category = c,
        set_featured = part_featured raw, set_images = i \<rparr>"
    by (auto simp: validateUpdateProduct_spec_def Let_def split: sum.splits)
  show ?thesis
    using c by (auto simp: v dest: check_opt_Some)
qed

lemma updateFirst_keeps_images:
  "set_images u = None \<Longrightarrow>
   map images (updateFirst P (applyUpdate u t) ds) = map images ds"
  by (induction ds) (simp_all add: applyUpdate_def)

lemma findByIdAndUpdate_keeps_images:
  assumes "set_images validated = None"
    and "Product_findByIdAndUpdate t i validated w = Inr (r, w')"
  shows "map images (collection w') = map images (collection w)"
proof -
  have "set_images (ProductSchema_updateSetters validated) = None"
    using assms(1) by (simp add: ProductSchema_updateSetters_def)
  then show ?thesis
    using assms(2)
    by (auto simp: Product_findByIdAndUpdate_def Let_def updateFirst_keeps_images
        split: if_splits option.splits)
qed

lemma updateProduct_keeps_images:
  assumes "validateUpdateProduct_spec (updateProduct_rawData formData) = Inr validated"
    and "set_images validated = None"
  shows "map images (collection (snd (updateProduct specValidations e i formData w))) =
         map images (collection w)"
proof (cases "connectFault e")
  case (Some err)
  then show ?thesis
    by (simp add: updateProduct_def updateProduct_try_def)
next
  case None
  show ?thesis
  proof (cases "withFault (storeFault e 0) (Product_findByIdAndUpdate (now e) i validated w)")
    case (Inl err)
    with None assms(1) show ?thesis
      by (simp add: updateProduct_def updateProduct_try_def specValidations_def)
  next
    case (Inr r)
    obtain p w' where r: "r = (p, w')" by (cases r)
    from Inr r have f: "Product_findByIdAndUpdate (now e) i validated w = Inr (p, w')"
      by (simp add: withFault_def split: option.splits)
    have "collection (snd (updateProduct specValidations e i formData w)) = collection w'"
      using None assms(1) Inr r
      by (cases p)
        (simp_all add: updateProduct_def updateProduct_try_def specValidations_def
          revalidatePath_def)
    then show ?thesis
      using findByIdAndUpdate_keeps_images [OF assms(2) f] by simp
  qed
qed

text \<open>
  Claim C3. With the update validator of the specification: whenever \<^verbatim>\<open>updateProduct\<close>
  gets a validated payload, every key of the payload names an entry of the submitted
  form; and when the form's \<^verbatim>\<open>images\<close> entries are all empty strings (or there are
  none), the payload has no \<^verbatim>\<open>images\<close> key and, whatever the id, the world and the
  environment, the action leaves the \<^verbatim>\<open>images\<close> of every stored product as they were.
\<close>

theorem updateProduct_payload_has_only_supplied_fields:
  assumes "validateUpdateProduct_spec (updateProduct_rawData formData) = Inr validated"
  shows "payload_fields validated \<subseteq> set (map fst formData) \<and>
    (filter (\<lambda>img. img \<noteq> EString []) (fd_getAll formData ''images'') = [] \<longrightarrow>
       set_images validated = None \<and> ''images'' \<notin> payload_fields validated \<and>
       (\<forall>e i w.
          map images (collection (snd (updateProduct specValidations e i formData w))) =
          map images (collection w)))"
proof (intro conjI impI allI)
  note r = rawData_fields_supplied [of formData]
  note v = validateUpdateProduct_spec_fields [OF assms]
  show "payload_fields validated \<subseteq> set (map fst formData)"
    unfolding payload_fields_def using r v by (auto split: if_splits)
next
  assume "filter (\<lambda>img. img \<noteq> EString []) (fd_getAll formData ''images'') = []"
  then have "part_images (updateProduct_rawData formData) = None"
    by (simp add: updateProduct_rawData_def Let_def)
  with validateUpdateProduct_spec_fields [OF assms] show i: "set_images validated = None"
    by blast
  then show "''images'' \<notin> payload_fields validated"
    by (simp add: payload_fields_def)
  fix e i w
  from i show "map images (collection (snd (updateProduct specValidations e i formData w))) =
          map images (collection w)"
    by (rule updateProduct_keeps_images [OF assms])
qed

lemma updateForm_valid:
  "validateUpdateProduct_spec (updateProduct_rawData updateForm) =
     Inr \<lparr> set_name = None, set_description = None, set_price = Some 7, set_stock = None,
           set_category = None, set_featured = None, set_images = None \<rparr>"
  by code_simp

lemma updateForm_images:
  "filter (\<lambda>img. img \<noteq> EString []) (fd_getAll updateForm ''images'') = []"
  by (simp add: fd_getAll_def updateForm_def)

lemma updateForm_price:
  "map price (collection (snd (updateProduct specValidations exampleEnv ''id0'' updateForm
      exampleWorld))) = [7]"
  by code_simp

theorem updateProduct_payload_has_only_supplied_fields_witness:
  "map images (collection (snd (updateProduct specValidations exampleEnv ''id0'' updateForm
      exampleWorld))) = [[''a.png'']] \<and>
   map price (collection (snd (updateProduct specValidations exampleEnv ''id0'' updateForm
      exampleWorld))) = [7] \<and>
   payload_fields \<lparr> set_name = None, set_description = None, set_price = Some 7, set_stock = None,
           set_category = None, set_featured = None, set_images = None \<rparr> = {''price''}"
proof -
  note t = updateProduct_payload_has_only_supplied_fields [OF updateForm_valid,
      THEN conjunct2, THEN mp, OF updateForm_images, THEN conjunct2, THEN conjunct2]
  from t have "map images (collection (snd (updateProduct specValidations exampleEnv ''id0''
      updateForm exampleWorld))) = map images (collection exampleWorld)"
    by blast
  moreover have "map images (collection exampleWorld) = [[''a.png'']]"
    by (simp add: exampleWorld_def exampleProduct_def)
  moreover have "payload_fields \<lparr> set_name = None, set_description = None, set_price = Some 7,
      set_stock = None, set_category = None, set_featured = None, set_images = None \<rparr> =
      {''price''}"
    by (simp add: payload_fields_def)
  ultimately show ?thesis
    using updateForm_price by simp
qed

end
